theory Spec2Isabelle
  imports Complex_Main "HOL-Library.Sublist"
begin

section \<open>Tracing: the ambient trace context and the span store (utils/tracing.ts)\<close>

text \<open>
  The module is the source file \<open>src/unnamed/part_006\<close>; line numbers are those of that
  file.

  JavaScript strings are modelled as \<open>string\<close>; an optional or nullable field is an
  \<open>option\<close>. A \<open>Record<string, any>\<close> value is a finite map from keys to (rendered)
  values. Dates are epoch milliseconds (\<open>int\<close>); the round trip through
  \<open>toISOString()\<close> and \<open>new Date(..)\<close> is the identity on them.
\<close>

type_synonym jsobj = "string \<rightharpoonup> string"

datatype SpanStatus = SpanRunning | SpanCompleted | SpanError

datatype SpanType = Cycle | Llm | Tool | Sub_agent | Custom

record TraceContext =
  traceId :: string
  currentSpanId :: "string option"

record TraceRow =
  trace_agent_id :: string
  trace_name :: string
  trace_status :: SpanStatus
  trace_start_time :: int
  trace_end_time :: "int option"
  trace_metadata :: jsobj
  trace_error :: "string option"

record SpanRow =
  span_id :: string
  trace_id :: string
  parent_span_id :: "string option"
  span_name :: string
  span_type :: SpanType
  span_status :: SpanStatus
  start_time :: int
  end_time :: "int option"
  duration_ms :: "int option"
  span_input :: "jsobj option"
  span_output :: "jsobj option"
  span_metadata :: "jsobj option"
  span_error :: "string option"

text \<open>
  The tables \<open>traces\<close> and \<open>spans\<close> of the data store (migration
  \<open>20250102000000_add_tracing.sql\<close>), with a flag telling whether the store answers at
  all. Every accessor of \<open>utils/database.ts\<close> turns a store error into \<open>null\<close>.
\<close>

record db =
  traces :: "string \<rightharpoonup> TraceRow"
  spans :: "string \<rightharpoonup> SpanRow"
  online :: bool

text \<open>The module state of \<open>tracing.ts\<close>: the single slot \<open>currentContext\<close>, and the store.\<close>

record tracing =
  currentContext :: "TraceContext option"
  store :: db

text \<open>JavaScript truthiness of an optional string, and the \<open>a || b\<close> idiom on them.\<close>

fun truthy :: "string option \<Rightarrow> bool" where
  "truthy None = False"
| "truthy (Some s) = (s \<noteq> [])"

definition js_or :: "string option \<Rightarrow> string option \<Rightarrow> string option" where
  "js_or a b = (if truthy a then a else b)"

definition or_null :: "string option \<Rightarrow> string option" where
  "or_null a = (if truthy a then a else None)"

definition setTraceContext :: "TraceContext option \<Rightarrow> tracing \<Rightarrow> tracing" where
  "setTraceContext context s = s\<lparr>currentContext := context\<rparr>"

definition getTraceContext :: "tracing \<Rightarrow> TraceContext option" where
  "getTraceContext s = currentContext s"

subsection \<open>The store accessors (\<open>traceDb\<close>, \<open>spanDb\<close>)\<close>

text \<open>
  \<open>insert(..).select().single()\<close>: the store assigns the primary key (\<open>new_id\<close>, supplied
  by the environment) and \<open>start_time\<close> (\<open>DEFAULT NOW()\<close>). The insert is rejected when the
  store is unreachable, when the key is taken, or when a foreign key does not resolve.
\<close>

definition traceDb_create ::
  "string \<Rightarrow> int \<Rightarrow> string \<Rightarrow> string \<Rightarrow> jsobj \<Rightarrow> db \<Rightarrow> (string \<times> db) option" where
  "traceDb_create new_id now agentId name metadata d =
     (if online d \<and> traces d new_id = None
      then Some (new_id,
                 d\<lparr>traces := (traces d)(new_id \<mapsto>
                     \<lparr>trace_agent_id = agentId, trace_name = name, trace_status = SpanRunning,
                      trace_start_time = now, trace_end_time = None,
                      trace_metadata = metadata, trace_error = None\<rparr>)\<rparr>)
      else None)"

definition traceDb_update ::
  "string \<Rightarrow> SpanStatus \<Rightarrow> int \<Rightarrow> string option \<Rightarrow> db \<Rightarrow> db" where
  "traceDb_update tid st endTime err d =
     (case (if online d then traces d tid else None) of
        None \<Rightarrow> d
      | Some row \<Rightarrow>
          d\<lparr>traces := (traces d)(tid \<mapsto>
              row\<lparr>trace_status := st, trace_end_time := Some endTime, trace_error := err\<rparr>)\<rparr>)"

definition spanDb_create ::
  "string \<Rightarrow> int \<Rightarrow> string \<Rightarrow> string option \<Rightarrow> string \<Rightarrow> SpanType \<Rightarrow>
   jsobj option \<Rightarrow> jsobj \<Rightarrow> db \<Rightarrow> (SpanRow \<times> db) option" where
  "spanDb_create new_id now tid parent name spanType inp metadata d =
     (if online d \<and> spans d new_id = None \<and> traces d tid \<noteq> None \<and>
         (case parent of None \<Rightarrow> True | Some p \<Rightarrow> spans d p \<noteq> None)
      then (let row = \<lparr>span_id = new_id, trace_id = tid, parent_span_id = parent,
                        span_name = name, span_type = spanType, span_status = SpanRunning,
                        start_time = now, end_time = None, duration_ms = None,
                        span_input = inp, span_output = None,
                        span_metadata = Some metadata, span_error = None\<rparr>
            in Some (row, d\<lparr>spans := (spans d)(new_id \<mapsto> row)\<rparr>))
      else None)"

definition spanDb_getById :: "string \<Rightarrow> db \<Rightarrow> SpanRow option" where
  "spanDb_getById sid d = (if online d then spans d sid else None)"

definition spanDb_update :: "string \<Rightarrow> (SpanRow \<Rightarrow> SpanRow) \<Rightarrow> db \<Rightarrow> db" where
  "spanDb_update sid updates d =
     (case (if online d then spans d sid else None) of
        None \<Rightarrow> d
      | Some row \<Rightarrow> d\<lparr>spans := (spans d)(sid \<mapsto> updates row)\<rparr>)"

subsection \<open>\<open>createTrace\<close>, \<open>endTrace\<close>\<close>

datatype tracing_error = FailedToCreateTrace

definition createTrace ::
  "string \<Rightarrow> int \<Rightarrow> string \<Rightarrow> string \<Rightarrow> jsobj option \<Rightarrow> tracing \<Rightarrow>
   tracing_error + (string \<times> tracing)" where
  "createTrace new_id now agentId name metadata s =
     (case traceDb_create new_id now agentId name
             (case metadata of None \<Rightarrow> Map.empty | Some m \<Rightarrow> m) (store s) of
        None \<Rightarrow> Inl FailedToCreateTrace
      | Some (tid, d) \<Rightarrow>
          Inr (tid, setTraceContext (Some \<lparr>traceId = tid, currentSpanId = None\<rparr>)
                      (s\<lparr>store := d\<rparr>)))"

definition endTrace ::
  "string \<Rightarrow> SpanStatus \<Rightarrow> string option \<Rightarrow> int \<Rightarrow> tracing \<Rightarrow> tracing" where
  "endTrace tid st err now s =
     (let s1 = s\<lparr>store := traceDb_update tid st now (or_null err) (store s)\<rparr>
      in case currentContext s1 of
           None \<Rightarrow> s1
         | Some c \<Rightarrow> if traceId c = tid then setTraceContext None s1 else s1)"

subsection \<open>\<open>startSpan\<close>, \<open>endSpan\<close>\<close>

record span_options =
  opt_traceId :: "string option"
  opt_parentSpanId :: "string option"
  opt_input :: "jsobj option"
  opt_metadata :: "jsobj option"

record end_options =
  opt_output :: "jsobj option"
  opt_error :: "string option"
  end_metadata :: "jsobj option"

text \<open>
  \<open>startSpan\<close> returns the new span's id, or the empty string when there is no trace to
  attach to (lines 103--106) or when the store rejects the row (lines 121--124).
\<close>

definition startSpan ::
  "string \<Rightarrow> int \<Rightarrow> string \<Rightarrow> SpanType \<Rightarrow> span_options option \<Rightarrow> tracing \<Rightarrow>
   string \<times> tracing" where
  "startSpan new_id now name spanType options s =
     (let context = getTraceContext s;
          tid = js_or (case options of None \<Rightarrow> None | Some opts \<Rightarrow> opt_traceId opts)
                      (map_option traceId context)
      in if \<not> truthy tid then ([], s)
         else
           (let parentSpanId =
                  js_or (case options of None \<Rightarrow> None | Some opts \<Rightarrow> opt_parentSpanId opts)
                        (case context of None \<Rightarrow> None | Some c \<Rightarrow> currentSpanId c)
            in case spanDb_create new_id now (the tid) (or_null parentSpanId) name spanType
                      (case options of None \<Rightarrow> None | Some opts \<Rightarrow> opt_input opts)
                      (case (case options of None \<Rightarrow> None | Some opts \<Rightarrow> opt_metadata opts) of
                         None \<Rightarrow> Map.empty | Some m \<Rightarrow> m)
                      (store s) of
                 None \<Rightarrow> ([], s)
               | Some (row, d) \<Rightarrow>
                   (let s1 = s\<lparr>store := d\<rparr>
                    in (span_id row,
                        (case context of
                           None \<Rightarrow> s1
                         | Some c \<Rightarrow>
                             if traceId c = the tid
                             then setTraceContext
                                    (Some \<lparr>traceId = traceId c,
                                           currentSpanId = Some (span_id row)\<rparr>) s1
                             else s1)))))"

definition endSpan ::
  "string \<Rightarrow> SpanStatus \<Rightarrow> end_options option \<Rightarrow> int \<Rightarrow> tracing \<Rightarrow> tracing" where
  "endSpan spanId st options now s =
     (if spanId = [] then s
      else case spanDb_getById spanId (store s) of
        None \<Rightarrow> s
      | Some row0 \<Rightarrow>
          (let endTime = now;
               durationMs = endTime - start_time row0;
               updates = (\<lambda>row.
                 (let row1 = row\<lparr>span_status := st, end_time := Some endTime,
                                 duration_ms := Some durationMs,
                                 span_output :=
                                   (case options of None \<Rightarrow> None | Some opts \<Rightarrow> opt_output opts),
                                 span_error :=
                                   or_null (case options of None \<Rightarrow> None
                                            | Some opts \<Rightarrow> opt_error opts)\<rparr>
                  in case (case options of None \<Rightarrow> None | Some opts \<Rightarrow> end_metadata opts) of
                       None \<Rightarrow> row1
                     | Some m \<Rightarrow>
                         row1\<lparr>span_metadata :=
                           Some ((case span_metadata row0 of None \<Rightarrow> Map.empty | Some m0 \<Rightarrow> m0)
                                 ++ m)\<rparr>));
               s1 = s\<lparr>store := spanDb_update spanId updates (store s)\<rparr>
           in case getTraceContext s1 of
                None \<Rightarrow> s1
              | Some c \<Rightarrow>
                  if currentSpanId c = Some spanId
                  then (if truthy (parent_span_id row0)
                        then setTraceContext
                               (Some \<lparr>traceId = traceId c,
                                      currentSpanId = parent_span_id row0\<rparr>) s1
                        else setTraceContext
                               (Some \<lparr>traceId = traceId c, currentSpanId = None\<rparr>) s1)
                  else s1))"

text \<open>A store holding one running trace \<open>t1\<close> with one running span \<open>s1\<close>, used below.\<close>

definition demo_db :: db where
  "demo_db =
     \<lparr>traces = [''t1'' \<mapsto> \<lparr>trace_agent_id = ''a1'', trace_name = ''agent_run'',
                            trace_status = SpanRunning, trace_start_time = 1000,
                            trace_end_time = None, trace_metadata = Map.empty,
                            trace_error = None\<rparr>],
      spans = [''s1'' \<mapsto> \<lparr>span_id = ''s1'', trace_id = ''t1'', parent_span_id = None,
                           span_name = ''cycle_1'', span_type = Cycle, span_status = SpanRunning,
                           start_time = 1000, end_time = None, duration_ms = None,
                           span_input = None, span_output = None,
                           span_metadata = Some Map.empty, span_error = None\<rparr>],
      online = True\<rparr>"

definition demo_tracing :: tracing where
  "demo_tracing =
     \<lparr>currentContext = Some \<lparr>traceId = ''t1'', currentSpanId = Some ''s1''\<rparr>,
      store = demo_db\<rparr>"

section \<open>The file system as the orchestrator uses it (Node's \<open>fs\<close>)\<close>

text \<open>
  The source calls \<open>existsSync\<close>, \<open>readFile\<close>, \<open>writeFile\<close> and
  \<open>mkdir(.., {recursive: true})\<close>. A path is the list of its components below the root,
  \<open>dirname\<close> (and \<open>join(p, '..')\<close>) drops the last one, and the root \<open>[]\<close> is a
  directory. A file holds the string that was written to it (UTF-8 encoding and decoding
  of the text is taken to be the identity). The field \<open>writes\<close> logs every completed
  \<open>writeFile\<close>, oldest first.
\<close>

type_synonym path = "string list"

datatype node = File string | Dir

datatype errno = ENOENT | EISDIR | ENOTDIR | EEXIST

record fs =
  nodes :: "path \<rightharpoonup> node"
  writes :: "(path \<times> string) list"

definition dirname :: "path \<Rightarrow> path" where
  "dirname p = butlast p"

definition is_dir :: "fs \<Rightarrow> path \<Rightarrow> bool" where
  "is_dir f p = (p = [] \<or> nodes f p = Some Dir)"

definition is_file :: "fs \<Rightarrow> path \<Rightarrow> bool" where
  "is_file f p = (case nodes f p of Some (File c) \<Rightarrow> p \<noteq> [] | Some Dir \<Rightarrow> False | None \<Rightarrow> False)"

definition existsSync :: "fs \<Rightarrow> path \<Rightarrow> bool" where
  "existsSync f p = (p = [] \<or> nodes f p \<noteq> None)"

definition readFile :: "fs \<Rightarrow> path \<Rightarrow> errno + string" where
  "readFile f p =
     (if p = [] then Inl EISDIR
      else case nodes f p of
             None \<Rightarrow> Inl ENOENT
           | Some Dir \<Rightarrow> Inl EISDIR
           | Some (File c) \<Rightarrow> Inr c)"

definition writeFile :: "fs \<Rightarrow> path \<Rightarrow> string \<Rightarrow> errno + fs" where
  "writeFile f p c =
     (if is_dir f p then Inl EISDIR
      else if is_dir f (dirname p)
      then Inr (f\<lparr>nodes := (nodes f)(p \<mapsto> File c), writes := writes f @ [(p, c)]\<rparr>)
      else if nodes f (dirname p) = None then Inl ENOENT
      else Inl ENOTDIR)"

definition mkdir_recursive :: "fs \<Rightarrow> path \<Rightarrow> errno + fs" where
  "mkdir_recursive f p =
     (if is_file f p then Inl EEXIST
      else if list_ex (is_file f) (prefixes p) then Inl ENOTDIR
      else Inr (f\<lparr>nodes := (\<lambda>q. if q \<noteq> [] \<and> prefix q p then Some Dir else nodes f q)\<rparr>))"


definition nl :: string where
  "nl = [CHR 0x0A]"

section \<open>Agent memory files (orchestrator/memory.ts)\<close>

text \<open>
  The module is the source file \<open>src/unnamed/part_003\<close>.

  The default template of \<open>readMemory\<close>, line by line. \<open>createdAt\<close> stands for the
  rendering \<open>createdAt.toISOString()\<close> of the creation date.
\<close>

definition default_template :: "string \<Rightarrow> string \<Rightarrow> string \<Rightarrow> string" where
  "default_template agentId createdAt instructions =
     ''# Research Agent Memory - '' @ agentId @ nl @
     ''Created: '' @ createdAt @ nl @
     ''Instructions: '' @ instructions @ nl @
     nl @
     ''## Research Query'' @ nl @
     ''(Research query will be specified when agent is created)'' @ nl @
     nl @
     ''## Cycle History'' @ nl @
     ''- ['' @ createdAt @ ''] Cycle 0: Initial creation'' @ nl @
     nl @
     ''## Research Progress'' @ nl @
     ''### Topics Explored'' @ nl @
     ''(Research topics will be tracked here)'' @ nl @
     nl @
     ''### Sources Found'' @ nl @
     ''(Sources and URLs will be tracked here)'' @ nl @
     nl @
     ''### Key Findings'' @ nl @
     ''(Key findings and insights will be tracked here)'' @ nl @
     nl @
     ''## Current State'' @ nl @
     ''Awaiting first research cycle'' @ nl @
     nl @
     ''## Notes'' @ nl @
     ''(Agent'' @ [CHR 0x27] @ ''s persistent notes and research observations will appear here)'' @ nl"

text \<open>
  \<open>readMemory\<close>: the \<open>catch\<close> of lines 39--42 answers the empty string when the read
  raises. \<open>writeMemory\<close>: the \<open>catch\<close> of lines 51--53 logs a failed write and returns
  normally, leaving the file system as it was.
\<close>

definition readMemory :: "fs \<Rightarrow> path \<Rightarrow> string \<Rightarrow> string \<Rightarrow> string \<Rightarrow> string" where
  "readMemory f memoryPath agentId instructions createdAt =
     (if existsSync f memoryPath
      then (case readFile f memoryPath of
              Inr content \<Rightarrow> content
            | Inl e \<Rightarrow> [])
      else default_template agentId createdAt instructions)"

definition writeMemory :: "fs \<Rightarrow> path \<Rightarrow> string \<Rightarrow> string \<Rightarrow> fs" where
  "writeMemory f memoryPath content agentId =
     (case writeFile f memoryPath content of
        Inr f' \<Rightarrow> f'
      | Inl e \<Rightarrow> f)"

section \<open>Sub-agents (orchestrator/subAgent.ts)\<close>

text \<open>
  The class \<open>SubAgentRunner\<close> is found in \<open>src/src/orchestrator/agent.ts\<close> from line 766
  on; line numbers are those of that file.
\<close>

datatype SubAgentStatus = Pending | Researching | Completed | Failed

text \<open>
  The fields of a \<open>SubAgentRunner\<close>. \<open>sub_currentQuery\<close> tells whether \<open>currentQuery\<close>
  holds a query object, and \<open>interrupts\<close> counts the \<open>interrupt()\<close> calls the runner has
  issued on its query. The span bookkeeping of \<open>run\<close> (\<open>withSpan\<close>, \<open>startSpan\<close>,
  \<open>endSpan\<close>, the fields \<open>traceId\<close> and \<open>parentSpanId\<close>) neither reads nor writes the
  fields below and is left to the tracing section.
\<close>

record SubAgentRunner =
  sub_id :: string
  parentId :: string
  task :: string
  reportPath :: path
  sub_createdAt :: int
  sub_status :: SubAgentStatus
  completedAt :: "int option"
  sub_error :: "string option"
  sub_currentQuery :: bool
  interrupts :: nat

definition new_SubAgentRunner :: "string \<Rightarrow> string \<Rightarrow> path \<Rightarrow> string \<Rightarrow> int \<Rightarrow> SubAgentRunner" where
  "new_SubAgentRunner parent tsk rpath ident now =
     \<lparr>sub_id = ident, parentId = parent, task = tsk, reportPath = rpath,
      sub_createdAt = now, sub_status = Pending, completedAt = None, sub_error = None,
      sub_currentQuery = False, interrupts = 0\<rparr>"

subsection \<open>The \<open>saveReport\<close> tool (\<open>createSubAgentMcpServer\<close>)\<close>

definition report_header :: "SubAgentRunner \<Rightarrow> string \<Rightarrow> string" where
  "report_header r timestamp =
     ''# Sub-Agent Research Report'' @ nl @
     ''Sub-Agent ID: '' @ sub_id r @ nl @
     ''Parent Orchestrator: '' @ parentId r @ nl @
     ''Task: '' @ task r @ nl @
     ''Generated: '' @ timestamp @ nl @
     nl"

definition reportContent :: "SubAgentRunner \<Rightarrow> string \<Rightarrow> string \<Rightarrow> string" where
  "reportContent r timestamp content = report_header r timestamp @ content @ nl"

text \<open>
  The tool's reply is a text built from the report path on success and from the error
  message in the \<open>catch\<close> branch; the reply type keeps what the text is built from.
  \<open>timestamp\<close> stands for \<open>new Date().toISOString()\<close>.
\<close>

datatype tool_reply = Report_saved path | Error_saving_report errno

definition saveReport :: "SubAgentRunner \<Rightarrow> string \<Rightarrow> string \<Rightarrow> fs \<Rightarrow> tool_reply \<times> fs" where
  "saveReport r timestamp content f =
     (let dir = dirname (reportPath r)
      in case (if \<not> existsSync f dir then mkdir_recursive f dir else Inr f) of
           Inl e \<Rightarrow> (Error_saving_report e, f)
         | Inr f1 \<Rightarrow>
             (case writeFile f1 (reportPath r) (reportContent r timestamp content) of
                Inl e \<Rightarrow> (Error_saving_report e, f1)
              | Inr f2 \<Rightarrow> (Report_saved (reportPath r), f2)))"

subsection \<open>\<open>run\<close>\<close>

datatype block = Text string | Tool_use string string

datatype message =
    Assistant "block list"
  | Stream_event
  | Result_success
  | Result_error "string list"
  | System
  | Other_message

fun is_saveReport :: "block \<Rightarrow> bool" where
  "is_saveReport (Tool_use tool_id name) = (name = ''saveReport'')"
| "is_saveReport (Text t) = False"


definition MAX_MESSAGES :: nat where
  "MAX_MESSAGES = 20"

text \<open>
  Decimal rendering of a number inside a template string; \<open>digit_char\<close> is only applied
  to numbers below ten.
\<close>

definition digit_char :: "nat \<Rightarrow> char" where
  "digit_char n = ''0123456789'' ! n"

function show_nat :: "nat \<Rightarrow> string" where
  "show_nat n = (if n < 10 then [digit_char n] else show_nat (n div 10) @ [digit_char (n mod 10)])"
  by pat_completeness auto
termination
  by (relation "measure id") auto

text \<open>
  The variables local to the \<open>for await\<close> loop of \<open>run\<close>; \<open>handled\<close> counts the messages
  that got past the ceiling check of lines 964--972 and were dispatched on their type.
\<close>

record run_locals =
  reportSaved :: bool
  messageCount :: nat
  handled :: nat

definition init_locals :: run_locals where
  "init_locals = \<lparr>reportSaved = False, messageCount = 0, handled = 0\<rparr>"

datatype flow = Continue | Break

definition too_long :: string where
  "too_long = ''Stopped after '' @ show_nat MAX_MESSAGES @ '' messages - research taking too long''"

text \<open>One iteration of the loop body (lines 958--1061) on a message received at time \<open>now\<close>.\<close>

definition on_message ::
  "int \<Rightarrow> message \<Rightarrow> SubAgentRunner \<times> run_locals \<Rightarrow> flow \<times> SubAgentRunner \<times> run_locals" where
  "on_message now msg rl =
     (case rl of (r, l) \<Rightarrow>
       (let l1 = l\<lparr>messageCount := messageCount l + 1\<rparr>
        in if messageCount l1 > MAX_MESSAGES
           then (Break,
                 r\<lparr>interrupts := (if sub_currentQuery r then interrupts r + 1 else interrupts r),
                   sub_status := Failed, sub_error := Some too_long\<rparr>,
                 l1)
           else (let l2 = l1\<lparr>handled := handled l1 + 1\<rparr>
                 in case msg of
                      Assistant content \<Rightarrow>
                        (Continue, r,
                         l2\<lparr>reportSaved := (reportSaved l2 \<or> list_ex is_saveReport content)\<rparr>)
                    | Result_success \<Rightarrow>
                        (if reportSaved l2
                         then (Continue, r\<lparr>sub_status := Completed, completedAt := Some now\<rparr>, l2)
                         else (Continue,
                               r\<lparr>sub_status := Failed, sub_error := Some ''Report not saved''\<rparr>,
                               l2))
                    | Result_error errors \<Rightarrow>
                        (Continue,
                         r\<lparr>sub_status := Failed,
                           sub_error := Some (case errors of [] \<Rightarrow> ''Unknown error''
                                              | e # es \<Rightarrow> e)\<rparr>,
                         l2)
                    | Stream_event \<Rightarrow> (Continue, r, l2)
                    | System \<Rightarrow> (Continue, r, l2)
                    | Other_message \<Rightarrow> (Continue, r, l2))))"

text \<open>The loop over the messages the stream delivers, each with its arrival time.\<close>

fun consume ::
  "(int \<times> message) list \<Rightarrow> SubAgentRunner \<times> run_locals \<Rightarrow> flow \<times> SubAgentRunner \<times> run_locals" where
  "consume [] rl = (Continue, rl)"
| "consume ((now, m) # ms) rl =
     (case on_message now m rl of
        (Break, rl') \<Rightarrow> (Break, rl')
      | (Continue, rl') \<Rightarrow> consume ms rl')"

datatype run_error = NotPending string | MkdirFailed errno | Thrown string

text \<open>How the stream ends once its messages are delivered: it completes, or it raises.\<close>

datatype stream_end = Stream_done | Stream_throws string

text \<open>Lines 878--882: the guard and the first status write.\<close>

definition run_enter :: "SubAgentRunner \<Rightarrow> run_error + SubAgentRunner" where
  "run_enter r =
     (if sub_status r \<noteq> Pending then Inl (NotPending (sub_id r))
      else Inr (r\<lparr>sub_status := Researching\<rparr>))"

text \<open>Lines 898--902: the report directory is created when it is missing.\<close>

definition run_setup :: "SubAgentRunner \<Rightarrow> fs \<Rightarrow> errno + fs" where
  "run_setup r f =
     (let reportDir = dirname (reportPath r)
      in if \<not> existsSync f reportDir then mkdir_recursive f reportDir else Inr f)"

text \<open>Line 946: the query object is stored.\<close>

definition create_query :: "SubAgentRunner \<Rightarrow> SubAgentRunner" where
  "create_query r = r\<lparr>sub_currentQuery := True\<rparr>"

text \<open>
  Leaving the loop: line 1064 after a \<open>break\<close> or the end of the stream, the \<open>catch\<close> of
  lines 1065--1071 when the stream raised.
\<close>

definition run_leave :: "flow \<Rightarrow> stream_end \<Rightarrow> SubAgentRunner \<Rightarrow> run_error option \<times> SubAgentRunner" where
  "run_leave fl ending r =
     (case fl of
        Break \<Rightarrow> (None, r\<lparr>sub_currentQuery := False\<rparr>)
      | Continue \<Rightarrow>
          (case ending of
             Stream_done \<Rightarrow> (None, r\<lparr>sub_currentQuery := False\<rparr>)
           | Stream_throws msg \<Rightarrow>
               (Some (Thrown msg),
                r\<lparr>sub_status := Failed, sub_error := Some msg, sub_currentQuery := False\<rparr>)))"

text \<open>
  \<open>run\<close> from entry to return with nothing else scheduled in between; the result is the
  exception \<open>run\<close> raised (if any), the runner, the loop variables and the file system.
\<close>

definition SubAgentRunner_run ::
  "SubAgentRunner \<Rightarrow> fs \<Rightarrow> (int \<times> message) list \<Rightarrow> stream_end \<Rightarrow>
   run_error option \<times> SubAgentRunner \<times> run_locals \<times> fs" where
  "SubAgentRunner_run r f msgs ending =
     (case run_enter r of
        Inl e \<Rightarrow> (Some e, r, init_locals, f)
      | Inr r1 \<Rightarrow>
          (case run_setup r1 f of
             Inl e \<Rightarrow> (Some (MkdirFailed e), r1, init_locals, f)
           | Inr f1 \<Rightarrow>
               (case consume msgs (create_query r1, init_locals) of
                  (fl, r2, l) \<Rightarrow>
                    (case run_leave fl ending r2 of
                       (err, r3) \<Rightarrow> (err, r3, l, f1)))))"

subsection \<open>\<open>stop\<close>\<close>

text \<open>
  Lines 1130--1139. The only \<open>await\<close> of \<open>stop\<close> precedes its writes, so the body is one
  step taken when that \<open>await\<close> returns.
\<close>

definition SubAgentRunner_stop :: "SubAgentRunner \<Rightarrow> SubAgentRunner" where
  "SubAgentRunner_stop r =
     (let r1 = (if sub_currentQuery r
                then r\<lparr>interrupts := interrupts r + 1, sub_currentQuery := False\<rparr>
                else r)
      in if sub_status r1 = Researching
         then r1\<lparr>sub_status := Failed, sub_error := Some ''Interrupted''\<rparr>
         else r1)"

subsection \<open>A runner with \<open>run\<close>, \<open>stop\<close> and the tool interleaved\<close>

text \<open>
  \<open>run\<close> suspends at its \<open>await\<close>s; \<open>stop\<close> (called by the parent) and the \<open>saveReport\<close>
  handler (called by the query engine) run in between. An event is one such resumption or
  call; \<open>sub_step\<close> is \<open>None\<close> when the event cannot happen in the phase \<open>run\<close> is in.
\<close>

datatype run_phase = Not_started | Setting_up | Streaming run_locals | Returned

record sub_machine =
  runner :: SubAgentRunner
  phase :: run_phase
  disk :: fs

datatype sub_event =
    Call_run
  | Query_created
  | Next_message int message
  | Stream_ends stream_end
  | Call_stop
  | Call_saveReport string string

fun sub_step :: "sub_event \<Rightarrow> sub_machine \<Rightarrow> sub_machine option" where
  "sub_step Call_run m =
     (case run_enter (runner m) of
        Inl e \<Rightarrow> Some m
      | Inr r1 \<Rightarrow> (if phase m = Not_started
                   then Some (m\<lparr>runner := r1, phase := Setting_up\<rparr>) else None))"
| "sub_step Query_created m =
     (if phase m = Setting_up
      then (case run_setup (runner m) (disk m) of
              Inl e \<Rightarrow> Some (m\<lparr>phase := Returned\<rparr>)
            | Inr f1 \<Rightarrow>
                Some (m\<lparr>runner := create_query (runner m), phase := Streaming init_locals,
                        disk := f1\<rparr>))
      else None)"
| "sub_step (Next_message now msg) m =
     (case phase m of
        Streaming l \<Rightarrow>
          (case on_message now msg (runner m, l) of
             (Break, r1, l1) \<Rightarrow>
               Some (m\<lparr>runner := snd (run_leave Break Stream_done r1), phase := Returned\<rparr>)
           | (Continue, r1, l1) \<Rightarrow> Some (m\<lparr>runner := r1, phase := Streaming l1\<rparr>))
      | Not_started \<Rightarrow> None
      | Setting_up \<Rightarrow> None
      | Returned \<Rightarrow> None)"
| "sub_step (Stream_ends ending) m =
     (case phase m of
        Streaming l \<Rightarrow>
          Some (m\<lparr>runner := snd (run_leave Continue ending (runner m)), phase := Returned\<rparr>)
      | Not_started \<Rightarrow> None
      | Setting_up \<Rightarrow> None
      | Returned \<Rightarrow> None)"
| "sub_step Call_stop m = Some (m\<lparr>runner := SubAgentRunner_stop (runner m)\<rparr>)"
| "sub_step (Call_saveReport timestamp content) m =
     (case phase m of
        Streaming l \<Rightarrow> Some (m\<lparr>disk := snd (saveReport (runner m) timestamp content (disk m))\<rparr>)
      | Not_started \<Rightarrow> None
      | Setting_up \<Rightarrow> None
      | Returned \<Rightarrow> None)"

fun sub_steps :: "sub_event list \<Rightarrow> sub_machine \<Rightarrow> sub_machine option" where
  "sub_steps [] m = Some m"
| "sub_steps (e # es) m = (case sub_step e m of None \<Rightarrow> None | Some m1 \<Rightarrow> sub_steps es m1)"

definition spawned :: "SubAgentRunner \<Rightarrow> fs \<Rightarrow> sub_machine" where
  "spawned r f = \<lparr>runner = r, phase = Not_started, disk = f\<rparr>"

section \<open>The agent orchestrator (orchestrator/agent.ts)\<close>

datatype AgentStatus = Running | Paused | Sleeping | Stopped

text \<open>
  The fields of an \<open>AgentOrchestrator\<close>. \<open>currentQuery\<close> and \<open>pauseResolve\<close> tell
  whether the field holds an object, \<open>query_interrupts\<close> counts the \<open>interrupt()\<close> calls
  made on the agent's queries, \<open>sleepTimeout\<close> is the timer handle (which stays in the
  field after the timer has fired), \<open>subAgents\<close> lists the keys of the map of that name
  (the runner objects themselves live in the heap of the machine below), and \<open>createdAt\<close>
  is kept in its \<open>toISOString()\<close> rendering.
\<close>

datatype timer = Armed | Fired

record AgentOrchestrator =
  agent_id :: string
  status :: AgentStatus
  cycleCount :: nat
  memoryPath :: path
  instructions :: string
  researchQuery :: "string option"
  resultsPath :: "path option"
  createdAt :: string
  lastCycleAt :: "int option"
  sleepUntil :: "int option"
  currentQuery :: bool
  query_interrupts :: nat
  sleepTimeout :: "timer option"
  isPaused :: bool
  pauseResolve :: bool
  shouldStop :: bool
  subAgents :: "string list"
  agent_traceId :: "string option"

definition new_AgentOrchestrator ::
  "string \<Rightarrow> string \<Rightarrow> path \<Rightarrow> string option \<Rightarrow> path option \<Rightarrow> string \<Rightarrow> AgentOrchestrator" where
  "new_AgentOrchestrator ident instr mpath rquery rpath now =
     \<lparr>agent_id = ident, status = Stopped, cycleCount = 0, memoryPath = mpath,
      instructions = instr, researchQuery = rquery, resultsPath = rpath, createdAt = now,
      lastCycleAt = None, sleepUntil = None, currentQuery = False, query_interrupts = 0,
      sleepTimeout = None, isPaused = False, pauseResolve = False, shouldStop = False,
      subAgents = [], agent_traceId = None\<rparr>"

subsection \<open>Long-term memory: \<open>generateEmbedding\<close>, \<open>longTermMemoryDb\<close> and the two callbacks\<close>

text \<open>
  The embedding pipeline and the vector store are external; they enter as functions. A
  pipeline call either raises (\<open>Inl\<close> the message) or yields the vector. A store call
  answers with the pair \<open>{data, error}\<close> of the Supabase client.
\<close>

datatype ltm_error = Embedding_raised string | Dimension_mismatch nat | Failed_to_create_memory

definition generateEmbedding ::
  "(string \<Rightarrow> string + 'v list) \<Rightarrow> string \<Rightarrow> ltm_error + 'v list" where
  "generateEmbedding model text =
     (case model text of
        Inl msg \<Rightarrow> Inl (Embedding_raised msg)
      | Inr embedding \<Rightarrow>
          if length embedding \<noteq> 384 then Inl (Dimension_mismatch (length embedding))
          else Inr embedding)"

record 'a response =
  resp_data :: "'a option"
  resp_error :: "string option"

record 'v memory_insert =
  mi_agent_id :: string
  mi_title :: string
  mi_content :: string
  mi_category :: string
  mi_embedding :: "'v list"
  mi_metadata :: jsobj

record LongTermMemoryRow =
  ltm_id :: string
  ltm_agent_id :: string
  ltm_title :: string
  ltm_content :: string
  ltm_category :: string

record 'v match_args =
  query_embedding :: "'v list"
  match_threshold :: real
  match_count :: nat
  filter_agent_id :: "string option"

record LongTermMemorySearchResult =
  res_id :: string
  res_title :: string
  res_content :: string
  res_category :: string
  res_similarity :: real
  res_created_at :: string

record search_hit =
  hit_title :: string
  hit_content :: string
  hit_similarity :: real

text \<open>\<open>longTermMemoryDb.create\<close>, database.ts lines 480--504: a store error becomes \<open>null\<close>.\<close>

definition longTermMemoryDb_create ::
  "('v memory_insert \<Rightarrow> LongTermMemoryRow response) \<Rightarrow> 'v memory_insert \<Rightarrow>
   LongTermMemoryRow option" where
  "longTermMemoryDb_create insert_row memory =
     (let res = insert_row memory
      in if resp_error res \<noteq> None then None else resp_data res)"

text \<open>
  \<open>longTermMemoryDb.search\<close>, database.ts lines 509--532: a store error is logged and
  becomes the empty list.
\<close>

definition longTermMemoryDb_search ::
  "('v match_args \<Rightarrow> LongTermMemorySearchResult list response) \<Rightarrow> 'v list \<Rightarrow>
   string option \<Rightarrow> real option \<Rightarrow> nat option \<Rightarrow> LongTermMemorySearchResult list" where
  "longTermMemoryDb_search rpc queryEmbedding agentId threshold limit =
     (let res = rpc \<lparr>query_embedding = queryEmbedding,
                     match_threshold = (case threshold of None \<Rightarrow> 7 / 10 | Some t \<Rightarrow> t),
                     match_count = (case limit of None \<Rightarrow> 5 | Some n \<Rightarrow> n),
                     filter_agent_id = or_null agentId\<rparr>
      in if resp_error res \<noteq> None then []
         else (case resp_data res of None \<Rightarrow> [] | Some rows \<Rightarrow> rows))"

text \<open>
  \<open>saveLongTermMemory\<close> and \<open>searchLongTermMemory\<close>, agent.ts lines 169--226. Their
  \<open>catch\<close> blocks log and rethrow; \<open>Inl\<close> is the exception that reaches the caller.
\<close>

definition saveLongTermMemory ::
  "(string \<Rightarrow> string + 'v list) \<Rightarrow> ('v memory_insert \<Rightarrow> LongTermMemoryRow response) \<Rightarrow>
   AgentOrchestrator \<Rightarrow> string \<Rightarrow> string \<Rightarrow> string option \<Rightarrow> ltm_error + string" where
  "saveLongTermMemory model insert_row a title content category =
     (case generateEmbedding model content of
        Inl e \<Rightarrow> Inl e
      | Inr embedding \<Rightarrow>
          (case longTermMemoryDb_create insert_row
                  \<lparr>mi_agent_id = agent_id a, mi_title = title, mi_content = content,
                   mi_category = (case category of None \<Rightarrow> ''research'' | Some c \<Rightarrow> c),
                   mi_embedding = embedding,
                   mi_metadata =
                     (case researchQuery a of
                        None \<Rightarrow> [''cycle_count'' \<mapsto> show_nat (cycleCount a)]
                      | Some q \<Rightarrow> [''research_query'' \<mapsto> q,
                                   ''cycle_count'' \<mapsto> show_nat (cycleCount a)])\<rparr> of
             None \<Rightarrow> Inl Failed_to_create_memory
           | Some memory \<Rightarrow> Inr (ltm_id memory)))"

definition searchLongTermMemory ::
  "(string \<Rightarrow> string + 'v list) \<Rightarrow>
   ('v match_args \<Rightarrow> LongTermMemorySearchResult list response) \<Rightarrow>
   AgentOrchestrator \<Rightarrow> string \<Rightarrow> nat option \<Rightarrow> ltm_error + search_hit list" where
  "searchLongTermMemory model rpc a query limit =
     (case generateEmbedding model query of
        Inl e \<Rightarrow> Inl e
      | Inr queryEmbedding \<Rightarrow>
          Inr (map (\<lambda>r. \<lparr>hit_title = res_title r, hit_content = res_content r,
                         hit_similarity = res_similarity r\<rparr>)
                 (longTermMemoryDb_search rpc queryEmbedding (Some (agent_id a))
                    (Some (7 / 10)) (Some (case limit of None \<Rightarrow> 5 | Some n \<Rightarrow> n)))))"

subsection \<open>The agent as a machine: its calls and its cycle loop, interleaved\<close>

text \<open>
  The methods are \<open>async\<close>: each runs until it reaches an \<open>await\<close>, and other calls, stream
  messages and timers are served before it is resumed. The machine state holds the
  agent, the place where the cycle loop is suspended, the suspended calls of \<open>start\<close>,
  \<open>pause\<close> and \<open>stop\<close>, the sub-agent objects and the file system. \<open>history\<close> records
  every value assigned to \<open>status\<close>, oldest first, beginning with the initial value.

  The machine follows one cycle loop and at most one suspended \<open>start\<close> and \<open>stop\<close> at a
  time; an event that would need more is refused (\<open>None\<close>), as is an event that cannot
  happen where the loop or the call stands. A call that has nothing to wait for at an
  \<open>await\<close> goes on at once in the source; the machine lets other events in between, which
  only adds runs.
\<close>

record cycle_locals =
  sleepRequested :: bool
  toolSpans :: "string list"

datatype loop_pc =
    No_loop
  | Loop_returned
  | Loop_threw
  | Loop_paused
  | Cycle_setup
  | In_stream cycle_locals
  | Ending_llm_span cycle_locals
  | Interrupting_for_stop cycle_locals
  | Interrupting_for_pause cycle_locals
  | Stream_paused cycle_locals
  | Ending_tool_spans cycle_locals
  | Sleep_wait
  | Cycle_teardown
  | Delay

datatype start_pc = Creating_trace | Preparing_memory

datatype stop_pc = Stop_called | Stop_joining | Stop_joined | Stop_ending_trace

record agent_machine =
  agent :: AgentOrchestrator
  history :: "AgentStatus list"
  loop :: loop_pc
  starting :: "start_pc option"
  pausing :: nat
  stopping :: "stop_pc option"
  heap :: "string \<rightharpoonup> SubAgentRunner"
  agent_disk :: fs

definition new_machine :: "AgentOrchestrator \<Rightarrow> fs \<Rightarrow> agent_machine" where
  "new_machine a f =
     \<lparr>agent = a, history = [status a], loop = No_loop, starting = None, pausing = 0,
      stopping = None, heap = Map.empty, agent_disk = f\<rparr>"

text \<open>An assignment \<open>this.status = st\<close>.\<close>

definition set_status :: "AgentStatus \<Rightarrow> agent_machine \<Rightarrow> agent_machine" where
  "set_status st m = m\<lparr>agent := (agent m)\<lparr>status := st\<rparr>, history := history m @ [st]\<rparr>"

text \<open>
  The loop returns (lines 558--559) or lets an exception escape; a \<open>stop\<close> suspended on
  \<open>await this.cycleLoopPromise\<close> is released, respectively fails with that exception.
\<close>

definition loop_returns :: "agent_machine \<Rightarrow> agent_machine" where
  "loop_returns m =
     (set_status Stopped m)
       \<lparr>loop := Loop_returned,
        stopping := (if stopping m = Some Stop_joining then Some Stop_joined else stopping m)\<rparr>"

definition loop_throws :: "agent_machine \<Rightarrow> agent_machine" where
  "loop_throws m =
     m\<lparr>loop := Loop_threw,
       stopping := (if stopping m = Some Stop_joining then None else stopping m)\<rparr>"

text \<open>
  From the test of \<open>while (!this.shouldStop)\<close> (line 531) to the next \<open>await\<close>: the loop
  ends, or parks on the pause promise (lines 534--541), or writes \<open>running\<close> (line 544) and
  enters \<open>runCycle\<close> (lines 255--264; its own test of \<open>shouldStop\<close> comes right after the
  one of line 531 and cannot succeed), which suspends opening the cycle span.
\<close>

definition loop_top :: "int \<Rightarrow> agent_machine \<Rightarrow> agent_machine" where
  "loop_top now m =
     (if shouldStop (agent m) then loop_returns m
      else if isPaused (agent m)
      then m\<lparr>agent := (agent m)\<lparr>pauseResolve := True\<rparr>, loop := Loop_paused\<rparr>
      else (let m1 = set_status Running m
            in m1\<lparr>agent := (agent m1)\<lparr>cycleCount := cycleCount (agent m1) + 1,
                                       lastCycleAt := Some now\<rparr>,
                  loop := Cycle_setup\<rparr>))"

text \<open>Lines 549--556 after \<open>runCycle\<close> has returned: the one-second delay, or the next test.\<close>

definition after_cycle :: "int \<Rightarrow> agent_machine \<Rightarrow> agent_machine" where
  "after_cycle now m =
     (if sleepUntil (agent m) = None \<and> \<not> shouldStop (agent m) then m\<lparr>loop := Delay\<rparr>
      else loop_top now m)"

text \<open>
  Lines 469--490, once the remaining tool spans are ended: the sleep, when one was
  requested and its deadline lies ahead, with the status write of line 474.
\<close>

definition post_stream :: "int \<Rightarrow> cycle_locals \<Rightarrow> agent_machine \<Rightarrow> agent_machine" where
  "post_stream now cl m =
     (case (if sleepRequested cl then sleepUntil (agent m) else None) of
        Some deadline \<Rightarrow>
          (let sleepDuration = deadline - now
           in if sleepDuration > 0
              then (let m1 = set_status Sleeping m
                    in m1\<lparr>agent := (agent m1)\<lparr>sleepTimeout := Some Armed\<rparr>, loop := Sleep_wait\<rparr>)
              else m\<lparr>agent := (agent m)\<lparr>sleepUntil := None, currentQuery := False\<rparr>,
                     loop := Cycle_teardown\<rparr>)
      | None \<Rightarrow> m\<lparr>agent := (agent m)\<lparr>currentQuery := False\<rparr>, loop := Cycle_teardown\<rparr>)"

text \<open>Lines 458--467, after the \<open>for await\<close> loop is left.\<close>

definition leave_stream :: "int \<Rightarrow> cycle_locals \<Rightarrow> agent_machine \<Rightarrow> agent_machine" where
  "leave_stream now cl m =
     (if toolSpans cl \<noteq> [] then m\<lparr>loop := Ending_tool_spans cl\<rparr> else post_stream now cl m)"

fun tool_use_id :: "block \<Rightarrow> string list" where
  "tool_use_id (Tool_use tool_id name) = [tool_id]"
| "tool_use_id (Text t) = []"

text \<open>One message of the cycle's stream, lines 331--455, up to the next \<open>await\<close>.\<close>

definition on_stream_message :: "message \<Rightarrow> cycle_locals \<Rightarrow> agent_machine \<Rightarrow> agent_machine" where
  "on_stream_message msg cl m =
     (if shouldStop (agent m)
      then m\<lparr>agent := (agent m)\<lparr>query_interrupts := query_interrupts (agent m) + 1\<rparr>,
             loop := Interrupting_for_stop cl\<rparr>
      else if isPaused (agent m)
      then m\<lparr>agent := (agent m)\<lparr>query_interrupts := query_interrupts (agent m) + 1\<rparr>,
             loop := Interrupting_for_pause cl\<rparr>
      else (case msg of
              Assistant content \<Rightarrow>
                m\<lparr>loop := In_stream
                     (cl\<lparr>toolSpans :=
                           fold List.insert (concat (map tool_use_id content)) (toolSpans cl)\<rparr>)\<rparr>
            | Result_success \<Rightarrow> m\<lparr>loop := Ending_llm_span cl\<rparr>
            | Result_error errors \<Rightarrow> m\<lparr>loop := In_stream cl\<rparr>
            | Stream_event \<Rightarrow> m\<lparr>loop := In_stream cl\<rparr>
            | System \<Rightarrow> m\<lparr>loop := In_stream cl\<rparr>
            | Other_message \<Rightarrow> m\<lparr>loop := In_stream cl\<rparr>))"

text \<open>What resumes the loop: an awaited call returns or raises, the stream yields, a timer fires.\<close>

datatype loop_input = Returns | Throws | Message message | Stream_completes | Timer_fires

fun loop_resume :: "int \<Rightarrow> loop_input \<Rightarrow> loop_pc \<Rightarrow> agent_machine \<Rightarrow> agent_machine option" where
  "loop_resume now Returns Cycle_setup m =
     Some (m\<lparr>agent := (agent m)\<lparr>currentQuery := True\<rparr>,
             loop := In_stream \<lparr>sleepRequested = False, toolSpans = []\<rparr>\<rparr>)"
| "loop_resume now Throws Cycle_setup m = Some (loop_throws m)"
| "loop_resume now (Message msg) (In_stream cl) m = Some (on_stream_message msg cl m)"
| "loop_resume now Stream_completes (In_stream cl) m = Some (leave_stream now cl m)"
| "loop_resume now Throws (In_stream cl) m =
     Some (loop_throws (m\<lparr>agent := (agent m)\<lparr>currentQuery := False\<rparr>\<rparr>))"
| "loop_resume now Returns (Ending_llm_span cl) m =
     Some (m\<lparr>loop := In_stream
                (cl\<lparr>sleepRequested := (sleepRequested cl \<or> sleepUntil (agent m) \<noteq> None)\<rparr>)\<rparr>)"
| "loop_resume now Returns (Interrupting_for_stop cl) m = Some (leave_stream now cl m)"
| "loop_resume now Throws (Interrupting_for_stop cl) m =
     Some (loop_throws (m\<lparr>agent := (agent m)\<lparr>currentQuery := False\<rparr>\<rparr>))"
| "loop_resume now Returns (Interrupting_for_pause cl) m =
     Some (m\<lparr>agent := (agent m)\<lparr>pauseResolve := True\<rparr>, loop := Stream_paused cl\<rparr>)"
| "loop_resume now Throws (Interrupting_for_pause cl) m =
     Some (loop_throws (m\<lparr>agent := (agent m)\<lparr>currentQuery := False\<rparr>\<rparr>))"
| "loop_resume now Returns (Ending_tool_spans cl) m = Some (post_stream now cl m)"
| "loop_resume now Timer_fires Sleep_wait m =
     (if sleepTimeout (agent m) = Some Armed
      then Some (m\<lparr>agent := (agent m)\<lparr>sleepTimeout := Some Fired, sleepUntil := None,
                                     currentQuery := False\<rparr>,
                   loop := Cycle_teardown\<rparr>)
      else None)"
| "loop_resume now Returns Cycle_teardown m = Some (after_cycle now m)"
| "loop_resume now Timer_fires Delay m = Some (loop_top now m)"
| "loop_resume now inp pc m = None"

text \<open>
  \<open>this.pauseResolve()\<close> followed by \<open>this.pauseResolve = undefined\<close> (lines 650--653 and
  687--690): the loop parked on the promise goes on before anything else is served.
\<close>

definition resolve_pause :: "int \<Rightarrow> agent_machine \<Rightarrow> agent_machine" where
  "resolve_pause now m =
     (if pauseResolve (agent m)
      then (let m1 = m\<lparr>agent := (agent m)\<lparr>pauseResolve := False\<rparr>\<rparr>
            in case loop m1 of
                 Loop_paused \<Rightarrow> loop_top now m1
               | Stream_paused cl \<Rightarrow> leave_stream now cl m1
               | No_loop \<Rightarrow> m1 | Loop_returned \<Rightarrow> m1 | Loop_threw \<Rightarrow> m1 | Cycle_setup \<Rightarrow> m1
               | In_stream cl \<Rightarrow> m1 | Ending_llm_span cl \<Rightarrow> m1
               | Interrupting_for_stop cl \<Rightarrow> m1 | Interrupting_for_pause cl \<Rightarrow> m1
               | Ending_tool_spans cl \<Rightarrow> m1 | Sleep_wait \<Rightarrow> m1 | Cycle_teardown \<Rightarrow> m1
               | Delay \<Rightarrow> m1)
      else m)"

text \<open>\<open>start\<close>, lines 565--606, in its three segments.\<close>

definition start_call :: "agent_machine \<Rightarrow> agent_machine option" where
  "start_call m =
     (if status (agent m) \<noteq> Stopped then Some m
      else if starting m \<noteq> None then None
      else Some ((set_status Running
                    (m\<lparr>agent := (agent m)\<lparr>shouldStop := False, isPaused := False\<rparr>\<rparr>))
                  \<lparr>starting := Some Creating_trace\<rparr>))"

definition start_trace_created :: "string option \<Rightarrow> agent_machine \<Rightarrow> agent_machine" where
  "start_trace_created created m =
     (case created of
        None \<Rightarrow> m\<lparr>starting := None\<rparr>
      | Some tid \<Rightarrow> m\<lparr>agent := (agent m)\<lparr>agent_traceId := Some tid\<rparr>,
                      starting := Some Preparing_memory\<rparr>)"

definition start_launch :: "int \<Rightarrow> agent_machine \<Rightarrow> agent_machine option" where
  "start_launch now m =
     (let a = agent m; f = agent_disk m; memoryDir = dirname (memoryPath a)
      in case (if \<not> existsSync f memoryDir then mkdir_recursive f memoryDir else Inr f) of
           Inl e \<Rightarrow> Some (m\<lparr>starting := None\<rparr>)
         | Inr f1 \<Rightarrow>
             (let f2 = (if \<not> existsSync f1 (memoryPath a)
                        then writeMemory f1 (memoryPath a)
                               (readMemory f1 (memoryPath a) (agent_id a) (instructions a)
                                  (createdAt a))
                               (agent_id a)
                        else f1)
              in if loop m = No_loop \<or> loop m = Loop_returned \<or> loop m = Loop_threw
                 then Some (loop_top now (m\<lparr>agent_disk := f2, starting := None\<rparr>))
                 else None))"

text \<open>\<open>pause\<close>, lines 611--636: up to \<open>await this.currentQuery.interrupt()\<close>, and after it.\<close>

definition pause_tail :: "agent_machine \<Rightarrow> agent_machine" where
  "pause_tail m =
     (if sleepTimeout (agent m) \<noteq> None
      then m\<lparr>agent := (agent m)\<lparr>sleepTimeout := None, sleepUntil := None\<rparr>\<rparr>
      else m)"

definition pause_call :: "agent_machine \<Rightarrow> agent_machine" where
  "pause_call m =
     (if status (agent m) = Stopped then m
      else if isPaused (agent m) then m
      else (let m1 = set_status Paused (m\<lparr>agent := (agent m)\<lparr>isPaused := True\<rparr>\<rparr>)
            in if currentQuery (agent m1)
               then m1\<lparr>agent := (agent m1)\<lparr>query_interrupts := query_interrupts (agent m1) + 1\<rparr>,
                       pausing := pausing m1 + 1\<rparr>
               else pause_tail m1))"

text \<open>\<open>resume\<close>, lines 641--656.\<close>

definition resume_call :: "int \<Rightarrow> agent_machine \<Rightarrow> agent_machine" where
  "resume_call now m =
     (if \<not> isPaused (agent m) then m
      else resolve_pause now
             (set_status Running (m\<lparr>agent := (agent m)\<lparr>isPaused := False\<rparr>\<rparr>)))"

text \<open>
  \<open>stop\<close>, lines 661--705: the flags and the interrupt (666--672); the sub-agents, the
  timer and the pause promise (675--690), after which the call waits for the loop; the
  end of the trace (698--701); the last status write (703).
\<close>

fun stop_all :: "string list \<Rightarrow> (string \<rightharpoonup> SubAgentRunner) \<Rightarrow> (string \<rightharpoonup> SubAgentRunner)" where
  "stop_all [] h = h"
| "stop_all (i # ids) h =
     stop_all ids (case h i of None \<Rightarrow> h | Some r \<Rightarrow> h(i \<mapsto> SubAgentRunner_stop r))"

definition stop_call :: "agent_machine \<Rightarrow> agent_machine option" where
  "stop_call m =
     (if status (agent m) = Stopped then Some m
      else if stopping m \<noteq> None then None
      else Some (m\<lparr>agent := (agent m)
                     \<lparr>shouldStop := True, isPaused := False,
                      query_interrupts := (if currentQuery (agent m)
                                           then query_interrupts (agent m) + 1
                                           else query_interrupts (agent m))\<rparr>,
                   stopping := Some Stop_called\<rparr>))"

definition stop_release :: "int \<Rightarrow> agent_machine \<Rightarrow> agent_machine" where
  "stop_release now m =
     resolve_pause now
       (m\<lparr>heap := stop_all (subAgents (agent m)) (heap m),
          agent := (agent m)\<lparr>subAgents := [], sleepTimeout := None\<rparr>,
          stopping := (case loop m of
                         No_loop \<Rightarrow> Some Stop_joined
                       | Loop_returned \<Rightarrow> Some Stop_joined
                       | Loop_threw \<Rightarrow> None
                       | Loop_paused \<Rightarrow> Some Stop_joining
                       | Cycle_setup \<Rightarrow> Some Stop_joining
                       | In_stream cl \<Rightarrow> Some Stop_joining
                       | Ending_llm_span cl \<Rightarrow> Some Stop_joining
                       | Interrupting_for_stop cl \<Rightarrow> Some Stop_joining
                       | Interrupting_for_pause cl \<Rightarrow> Some Stop_joining
                       | Stream_paused cl \<Rightarrow> Some Stop_joining
                       | Ending_tool_spans cl \<Rightarrow> Some Stop_joining
                       | Sleep_wait \<Rightarrow> Some Stop_joining
                       | Cycle_teardown \<Rightarrow> Some Stop_joining
                       | Delay \<Rightarrow> Some Stop_joining)\<rparr>)"

definition stop_finish :: "agent_machine \<Rightarrow> agent_machine" where
  "stop_finish m =
     (set_status Stopped (m\<lparr>agent := (agent m)\<lparr>agent_traceId := None\<rparr>\<rparr>))\<lparr>stopping := None\<rparr>"

fun stop_resume :: "int \<Rightarrow> stop_pc \<Rightarrow> agent_machine \<Rightarrow> agent_machine option" where
  "stop_resume now Stop_called m = Some (stop_release now m)"
| "stop_resume now Stop_joining m = None"
| "stop_resume now Stop_joined m =
     (if agent_traceId (agent m) \<noteq> None then Some (m\<lparr>stopping := Some Stop_ending_trace\<rparr>)
      else Some (stop_finish m))"
| "stop_resume now Stop_ending_trace m = Some (stop_finish m)"

text \<open>\<open>handleSleep\<close>, lines 59--63, called by the sleep tool while a query is open.\<close>

definition handleSleep :: "int \<Rightarrow> int \<Rightarrow> agent_machine \<Rightarrow> agent_machine" where
  "handleSleep now durationSeconds m =
     m\<lparr>agent := (agent m)\<lparr>sleepUntil := Some (now + durationSeconds * 1000)\<rparr>\<rparr>"

datatype agent_event =
    Start
  | Trace_created "string option"
  | Start_resumes
  | Pause
  | Pause_resumes
  | Resume
  | Stop
  | Stop_resumes
  | Sleep_tool int
  | Loop loop_input

fun agent_step :: "int \<times> agent_event \<Rightarrow> agent_machine \<Rightarrow> agent_machine option" where
  "agent_step (now, Start) m = start_call m"
| "agent_step (now, Trace_created created) m =
     (if starting m = Some Creating_trace then Some (start_trace_created created m) else None)"
| "agent_step (now, Start_resumes) m =
     (if starting m = Some Preparing_memory then start_launch now m else None)"
| "agent_step (now, Pause) m = Some (pause_call m)"
| "agent_step (now, Pause_resumes) m =
     (if pausing m > 0 then Some (pause_tail (m\<lparr>pausing := pausing m - 1\<rparr>)) else None)"
| "agent_step (now, Resume) m = Some (resume_call now m)"
| "agent_step (now, Stop) m = stop_call m"
| "agent_step (now, Stop_resumes) m =
     (case stopping m of None \<Rightarrow> None | Some pc \<Rightarrow> stop_resume now pc m)"
| "agent_step (now, Sleep_tool durationSeconds) m =
     (if currentQuery (agent m) then Some (handleSleep now durationSeconds m) else None)"
| "agent_step (now, Loop inp) m = loop_resume now inp (loop m) m"

fun agent_steps :: "(int \<times> agent_event) list \<Rightarrow> agent_machine \<Rightarrow> agent_machine option" where
  "agent_steps [] m = Some m"
| "agent_steps (e # es) m =
     (case agent_step e m of None \<Rightarrow> None | Some m1 \<Rightarrow> agent_steps es m1)"

subsection \<open>\<open>readSubAgentReport\<close>, lines 152--164\<close>

datatype report_error =
    Sub_agent_not_found string
  | Report_file_not_found string path
  | Read_failed errno

definition subAgents_get :: "agent_machine \<Rightarrow> string \<Rightarrow> SubAgentRunner option" where
  "subAgents_get m subAgentId =
     (if subAgentId \<in> set (subAgents (agent m)) then heap m subAgentId else None)"

definition readSubAgentReport ::
  "agent_machine \<Rightarrow> string \<Rightarrow> (report_error + string) \<times> agent_machine" where
  "readSubAgentReport m subAgentId =
     (case subAgents_get m subAgentId of
        None \<Rightarrow> (Inl (Sub_agent_not_found subAgentId), m)
      | Some subAgent \<Rightarrow>
          (if \<not> existsSync (agent_disk m) (reportPath subAgent)
           then (Inl (Report_file_not_found subAgentId (reportPath subAgent)), m)
           else (case readFile (agent_disk m) (reportPath subAgent) of
                   Inl e \<Rightarrow> (Inl (Read_failed e), m)
                 | Inr content \<Rightarrow> (Inr content, m))))"





section \<open>Concrete agents, streams and schedules\<close>

definition empty_fs :: fs where
  "empty_fs = \<lparr>nodes = Map.empty, writes = []\<rparr>"

definition demo_runner :: SubAgentRunner where
  "demo_runner =
     new_SubAgentRunner ''a1'' ''find recent results''
       [''results'', ''sub-agents'', ''a1'', ''sa1.md''] ''sa1'' 1000"

definition demo_agent :: AgentOrchestrator where
  "demo_agent =
     new_AgentOrchestrator ''a1'' ''research X'' [''memory'', ''a1.md''] None
       (Some [''results'', ''a1-results.md'']) ''2025-01-01T00:00:00.000Z''"


text \<open>
  The same cycle with \<open>pause()\<close> called after the result message and before the stream
  ends: the sleep write of line 474 then overwrites \<open>paused\<close>.
\<close>

definition pause_before_sleep :: "(int \<times> agent_event) list" where
  "pause_before_sleep =
     [(0, Start), (1, Trace_created (Some ''t1'')), (2, Start_resumes), (3, Loop Returns),
      (4, Loop (Message (Assistant [Tool_use ''tu1'' ''sleep'']))), (5, Sleep_tool 60),
      (6, Loop (Message Result_success)), (7, Loop Returns), (8, Pause),
      (9, Loop Stream_completes), (10, Loop Returns)]"

text \<open>
  A sub-agent whose parent calls \<open>stop()\<close> after the model has called \<open>saveReport\<close>, the
  success result of the query arriving afterwards; and one whose stream goes on for 19
  more messages after the success result.
\<close>

definition late_result :: "sub_event list" where
  "late_result =
     [Call_run, Query_created,
      Next_message 2000 (Assistant [Tool_use ''tu1'' ''saveReport'']),
      Call_saveReport ''2025-01-01T00:00:02.000Z'' ''X'',
      Call_stop,
      Next_message 3000 Result_success]"

definition long_tail :: "sub_event list" where
  "long_tail =
     [Call_run, Query_created,
      Next_message 2000 (Assistant [Tool_use ''tu1'' ''saveReport'']),
      Call_saveReport ''2025-01-01T00:00:02.000Z'' ''X'',
      Next_message 3000 Result_success]
     @ replicate 19 (Next_message 4000 System)"



text \<open>An embedding pipeline that works, and a store whose search call fails.\<close>

definition ok_model :: "string \<Rightarrow> string + int list" where
  "ok_model text = Inr (replicate 384 0)"

definition failing_rpc :: "int match_args \<Rightarrow> LongTermMemorySearchResult list response" where
  "failing_rpc args = \<lparr>resp_data = None, resp_error = Some ''connection refused''\<rparr>"


definition second_runner :: SubAgentRunner where
  "second_runner =
     new_SubAgentRunner ''a1'' ''find older results''
       [''results'', ''sub-agents'', ''a1'', ''sa2.md''] ''sa2'' 1500"

definition reports_fs :: fs where
  "reports_fs =
     \<lparr>nodes = Map.empty([''results'', ''sub-agents'', ''a1'', ''sa1.md''] \<mapsto>
                File ''report body''),
      writes = []\<rparr>"

definition demo_machine :: agent_machine where
  "demo_machine =
     (new_machine (demo_agent\<lparr>status := Running, subAgents := [''sa1'', ''sa2'']\<rparr>) reports_fs)
       \<lparr>heap := [''sa1'' \<mapsto> demo_runner\<lparr>sub_status := Completed, completedAt := Some 3000\<rparr>,
                 ''sa2'' \<mapsto> second_runner\<lparr>sub_status := Researching,
                                           sub_currentQuery := True\<rparr>]\<rparr>"

definition failing_model :: "string \<Rightarrow> string + int list" where
  "failing_model text = Inl ''model not loaded''"

definition failing_insert :: "int memory_insert \<Rightarrow> LongTermMemoryRow response" where
  "failing_insert row = \<lparr>resp_data = None, resp_error = Some ''connection refused''\<rparr>"

text \<open>
  A \<open>stop()\<close> whose last statement runs after the agent has been started again: the new
  loop then goes to sleep from status \<open>stopped\<close>.
\<close>

definition restart_during_stop :: "(int \<times> agent_event) list" where
  "restart_during_stop =
     [(0, Start), (1, Trace_created (Some ''t1'')), (2, Start_resumes), (3, Loop Returns),
      (4, Stop), (5, Stop_resumes), (6, Loop (Message System)), (7, Loop Returns),
      (8, Loop Returns), (9, Stop_resumes),
      (10, Start), (11, Trace_created (Some ''t2'')), (12, Start_resumes),
      (13, Stop_resumes),
      (14, Loop Returns), (15, Loop (Message (Assistant [Tool_use ''tu1'' ''sleep'']))),
      (16, Sleep_tool 60), (17, Loop (Message Result_success)), (18, Loop Returns),
      (19, Loop Stream_completes), (20, Loop Returns)]"

section \<open>The invariant behind the status edges\<close>


section \<open>Theorems\<close>

text \<open>
  C8. For every span id that is the empty string or does not name a span of the store,
  \<open>endSpan\<close> is a no-op: it returns normally (the function has no failure result: the
  source has no \<open>throw\<close> and the store accessors answer \<open>null\<close> on any error), it stores
  nothing and it leaves the active trace context as it was, whatever the status and
  options passed.
\<close>

theorem endSpan_unknown_noop:
  "spanId = [] \<or> spans (store s) spanId = None \<Longrightarrow> endSpan spanId st options now s = s"
  by (auto simp: endSpan_def spanDb_getById_def)

theorem endSpan_unknown_noop_witness:
  "([] = ([]::string) \<or> spans (store demo_tracing) [] = None) \<and>
   endSpan [] SpanCompleted None 2000 demo_tracing = demo_tracing \<and>
   (''nope'' = [] \<or> spans (store demo_tracing) ''nope'' = None) \<and>
   endSpan ''nope'' SpanError None 2000 demo_tracing = demo_tracing"
  using endSpan_unknown_noop [of "[]" demo_tracing SpanCompleted None 2000]
        endSpan_unknown_noop [of "''nope''" demo_tracing SpanError None 2000]
  by (simp add: demo_tracing_def demo_db_def)


text \<open>
  C9. When there is no active trace context and no (non-empty) \<open>traceId\<close> option,
  \<open>startSpan\<close> creates no span record and returns the empty string; \<open>endSpan\<close> of that
  result is then a no-op, so the pair leaves the tracing state exactly as it was.
\<close>

theorem startSpan_outside_trace:
  "currentContext s = None \<and>
   \<not> truthy (case options of None \<Rightarrow> None | Some opts \<Rightarrow> opt_traceId opts) \<Longrightarrow>
   startSpan new_id now name spanType options s = ([], s) \<and>
   endSpan (fst (startSpan new_id now name spanType options s)) st end_opts now'
           (snd (startSpan new_id now name spanType options s)) = s"
  by (simp add: startSpan_def endSpan_def getTraceContext_def js_or_def)

theorem startSpan_outside_trace_witness:
  "currentContext (demo_tracing\<lparr>currentContext := None\<rparr>) = None \<and>
   \<not> truthy (case (None :: span_options option) of None \<Rightarrow> None
             | Some opts \<Rightarrow> opt_traceId opts) \<and>
   startSpan ''s2'' 2000 ''tool_x'' Tool None (demo_tracing\<lparr>currentContext := None\<rparr>) =
     ([], demo_tracing\<lparr>currentContext := None\<rparr>) \<and>
   endSpan (fst (startSpan ''s2'' 2000 ''tool_x'' Tool None
                   (demo_tracing\<lparr>currentContext := None\<rparr>))) SpanCompleted None 3000
           (snd (startSpan ''s2'' 2000 ''tool_x'' Tool None
                   (demo_tracing\<lparr>currentContext := None\<rparr>))) =
     demo_tracing\<lparr>currentContext := None\<rparr>"
proof -
  have h: "currentContext (demo_tracing\<lparr>currentContext := None\<rparr>) = None \<and>
           \<not> truthy (case (None :: span_options option) of None \<Rightarrow> None
                     | Some opts \<Rightarrow> opt_traceId opts)"
    by simp
  show ?thesis
    using h startSpan_outside_trace
              [of "demo_tracing\<lparr>currentContext := None\<rparr>" None "''s2''" 2000 "''tool_x''"
                  Tool SpanCompleted None 3000, OF h]
    by blast
qed

subsection \<open>The message ceiling of a sub-agent run\<close>

lemma too_long_eq: "too_long = ''Stopped after 20 messages - research taking too long''"
  by (simp add: too_long_def MAX_MESSAGES_def digit_char_def)

lemma on_message_counts:
  "on_message now msg (r, l) = (fl, r', l') \<Longrightarrow> messageCount l = handled l \<Longrightarrow>
   messageCount l \<le> MAX_MESSAGES \<Longrightarrow>
   messageCount l' = messageCount l + 1 \<and>
   (fl = Continue \<longrightarrow> messageCount l < MAX_MESSAGES \<and> handled l' = messageCount l' \<and>
       sub_currentQuery r' = sub_currentQuery r \<and> interrupts r' = interrupts r) \<and>
   (fl = Break \<longrightarrow> messageCount l = MAX_MESSAGES \<and> handled l' = handled l \<and>
       sub_status r' = Failed \<and> sub_error r' = Some too_long \<and>
       sub_currentQuery r' = sub_currentQuery r \<and>
       interrupts r' = (if sub_currentQuery r then interrupts r + 1 else interrupts r))"
  by (auto simp: on_message_def Let_def split: if_splits message.splits)

lemma consume_counts:
  "consume msgs (r, l) = (fl, r', l') \<Longrightarrow> messageCount l = handled l \<Longrightarrow>
   messageCount l \<le> MAX_MESSAGES \<Longrightarrow>
   handled l' \<le> MAX_MESSAGES \<and> sub_currentQuery r' = sub_currentQuery r \<and>
   (if MAX_MESSAGES < messageCount l + length msgs
    then fl = Break \<and> messageCount l' = MAX_MESSAGES + 1 \<and> handled l' = MAX_MESSAGES \<and>
         sub_status r' = Failed \<and> sub_error r' = Some too_long \<and>
         interrupts r' = (if sub_currentQuery r then interrupts r + 1 else interrupts r)
    else fl = Continue \<and> messageCount l' = messageCount l + length msgs \<and>
         handled l' = messageCount l' \<and> interrupts r' = interrupts r)"
proof (induction msgs arbitrary: r l)
  case Nil
  then show ?case by auto
next
  case (Cons tm msgs)
  obtain now m where tm: "tm = (now, m)" by (cases tm)
  obtain fl1 r1 l1 where om: "on_message now m (r, l) = (fl1, r1, l1)"
    by (cases "on_message now m (r, l)")
  note oc = on_message_counts [OF om Cons.prems(2) Cons.prems(3)]
  show ?case
  proof (cases fl1)
    case Break
    with Cons.prems(1) tm om have "fl = Break" "r' = r1" "l' = l1" by auto
    with oc Break Cons.prems(2) show ?thesis by auto
  next
    case Continue
    with Cons.prems(1) tm om have c: "consume msgs (r1, l1) = (fl, r', l')" by auto
    from oc Continue have h: "messageCount l1 = handled l1" "messageCount l1 \<le> MAX_MESSAGES"
      by auto
    from Cons.IH [OF c h] oc Continue show ?thesis by (auto split: if_splits)
  qed
qed

text \<open>
  C2. A run never dispatches more than \<open>MAX_MESSAGES\<close> (the constant 20 of line 953)
  stream messages. When a started run is delivered more than that, the message that
  brings the count to 21 is not dispatched: the runner calls \<open>interrupt()\<close> on its query,
  sets status \<open>failed\<close> with the error "Stopped after 20 messages - research taking too
  long" and leaves the loop, the rest of the stream unread.
\<close>

theorem run_message_ceiling:
  "case SubAgentRunner_run r f msgs ending of
     (err, r', l, f') \<Rightarrow>
       handled l \<le> MAX_MESSAGES \<and>
       (sub_status r = Pending \<and> \<not> isl (run_setup r f) \<and> MAX_MESSAGES < length msgs \<longrightarrow>
          err = None \<and> messageCount l = MAX_MESSAGES + 1 \<and> handled l = MAX_MESSAGES \<and>
          sub_status r' = Failed \<and>
          sub_error r' = Some ''Stopped after 20 messages - research taking too long'' \<and>
          interrupts r' = interrupts r + 1 \<and> sub_currentQuery r' = False)"
proof (cases "run_enter r")
  case (Inl e)
  then show ?thesis
    by (auto simp: SubAgentRunner_run_def init_locals_def run_enter_def split: if_splits)
next
  case (Inr r1)
  then have r1: "r1 = r\<lparr>sub_status := Researching\<rparr>" and p: "sub_status r = Pending"
    by (auto simp: run_enter_def split: if_splits)
  have su: "run_setup r1 f = run_setup r f" by (simp add: r1 run_setup_def)
  show ?thesis
  proof (cases "run_setup r f")
    case (Inl e)
    with Inr su show ?thesis by (simp add: SubAgentRunner_run_def init_locals_def)
  next
    case (Inr f1)
    obtain fl r2 l where c: "consume msgs (create_query r1, init_locals) = (fl, r2, l)"
      by (cases "consume msgs (create_query r1, init_locals)")
    have cc: "handled l \<le> MAX_MESSAGES \<and> sub_currentQuery r2 = True \<and>
       (if MAX_MESSAGES < length msgs
        then fl = Break \<and> messageCount l = MAX_MESSAGES + 1 \<and> handled l = MAX_MESSAGES \<and>
             sub_status r2 = Failed \<and>
             sub_error r2 = Some too_long \<and> interrupts r2 = interrupts r + 1
        else fl = Continue \<and> messageCount l = length msgs \<and>
             handled l = messageCount l \<and> interrupts r2 = interrupts r)"
      using consume_counts [OF c] by (simp add: init_locals_def create_query_def r1)
    obtain err r3 where lv: "run_leave fl ending r2 = (err, r3)"
      by (cases "run_leave fl ending r2")
    have run: "SubAgentRunner_run r f msgs ending = (err, r3, l, f1)"
      using \<open>run_enter r = Inr r1\<close> Inr su c lv by (simp add: SubAgentRunner_run_def)
    show ?thesis
      using cc lv by (auto simp: run run_leave_def too_long_eq Inr split: if_splits)
  qed
qed

theorem run_message_ceiling_witness:
  "sub_status demo_runner = Pending \<and> \<not> isl (run_setup demo_runner empty_fs) \<and>
   MAX_MESSAGES < length (replicate 21 (0::int, System)) \<and>
   (case SubAgentRunner_run demo_runner empty_fs (replicate 21 (0, System)) Stream_done of
      (err, r', l, f') \<Rightarrow>
        handled l = 20 \<and> messageCount l = 21 \<and> sub_status r' = Failed \<and>
        sub_error r' = Some ''Stopped after 20 messages - research taking too long'' \<and>
        interrupts r' = 1)"
proof -
  have h: "sub_status demo_runner = Pending \<and> \<not> isl (run_setup demo_runner empty_fs) \<and>
           MAX_MESSAGES < length (replicate 21 (0::int, System))"
    by (simp add: demo_runner_def new_SubAgentRunner_def run_setup_def empty_fs_def
          dirname_def existsSync_def mkdir_recursive_def is_file_def MAX_MESSAGES_def
          prefixes_snoc [symmetric] del: prefixes_snoc)
  have i: "interrupts demo_runner = 0"
    by (simp add: demo_runner_def new_SubAgentRunner_def)
  show ?thesis
    using h i run_message_ceiling [of demo_runner empty_fs "replicate 21 (0, System)" Stream_done]
    by (auto simp: MAX_MESSAGES_def split: prod.splits)
qed

subsection \<open>Sub-agent status after it has become terminal\<close>

text \<open>
  C3. The claim: status moves only along pending, researching, then completed or failed,
  and once it is completed or failed nothing changes it again. \<open>run\<close> does reject a
  runner that is not pending (line 878) and \<open>stop\<close> does leave a terminal status alone
  (line 1135), but the stream loop of \<open>run\<close> writes status without
  looking at it and does not leave the loop after a result message. Evaluated on two
  schedules: with \<open>late_result\<close> the runner is failed ("Interrupted") after \<open>stop()\<close> and
  then completed by the success result that arrives afterwards; with \<open>long_tail\<close> it is
  completed after the success result and then failed by the message ceiling.
\<close>

theorem terminal_status_changes:
  "map_option (sub_status \<circ> runner) (sub_steps (butlast late_result) (spawned demo_runner empty_fs))
     = Some Failed \<and>
   map_option (sub_status \<circ> runner) (sub_steps late_result (spawned demo_runner empty_fs))
     = Some Completed \<and>
   map_option (sub_status \<circ> runner) (sub_steps (take 5 long_tail) (spawned demo_runner empty_fs))
     = Some Completed \<and>
   map_option (sub_status \<circ> runner) (sub_steps long_tail (spawned demo_runner empty_fs))
     = Some Failed"
  by code_simp

subsection \<open>\<open>stop\<close> on a sub-agent, alone and from the parent's \<open>stop\<close>\<close>

lemma stop_all_keeps:
  "h i = Some r \<Longrightarrow> sub_status r \<noteq> Researching \<Longrightarrow>
   \<exists>r'. stop_all ids h i = Some r' \<and> sub_status r' = sub_status r \<and>
        completedAt r' = completedAt r \<and> sub_error r' = sub_error r"
proof (induction ids arbitrary: h r)
  case Nil
  then show ?case by simp
next
  case (Cons j ids)
  show ?case
  proof (cases "h j")
    case None
    with Cons show ?thesis by simp
  next
    case (Some rj)
    let ?h = "h(j \<mapsto> SubAgentRunner_stop rj)"
    have "\<exists>r1. ?h i = Some r1 \<and> sub_status r1 = sub_status r \<and>
            completedAt r1 = completedAt r \<and> sub_error r1 = sub_error r"
      using Cons.prems Some by (auto simp: SubAgentRunner_stop_def Let_def)
    then obtain r1 where r1: "?h i = Some r1" "sub_status r1 = sub_status r"
        "completedAt r1 = completedAt r" "sub_error r1 = sub_error r" by blast
    have nr: "sub_status r1 \<noteq> Researching" using r1(2) Cons.prems(2) by simp
    have "\<exists>r'. stop_all ids ?h i = Some r' \<and> sub_status r' = sub_status r1 \<and>
            completedAt r' = completedAt r1 \<and> sub_error r' = sub_error r1"
      by (rule Cons.IH [of ?h r1, OF r1(1) nr])
    then show ?thesis using r1 Some by (simp del: fun_upd_apply)
  qed
qed

lemma heap_loop_top: "heap (loop_top now m) = heap m"
  by (simp add: loop_top_def loop_returns_def set_status_def Let_def)

lemma heap_leave_stream: "heap (leave_stream now cl m) = heap m"
  by (simp add: leave_stream_def post_stream_def set_status_def Let_def split: option.splits)

lemma heap_resolve_pause: "heap (resolve_pause now m) = heap m"
  by (simp add: resolve_pause_def Let_def heap_loop_top heap_leave_stream split: loop_pc.splits)

text \<open>
  C10. \<open>SubAgentRunner.stop()\<close> sets status \<open>failed\<close> with error "Interrupted" exactly when
  the runner is researching; in every other status it leaves status and error as they
  are, and it never touches \<open>completedAt\<close>. The parent's \<open>stop()\<close> calls it on every
  registered sub-agent (lines 675--677), so a sub-agent that is completed keeps its
  status, its completion time and its error field through the parent's stop.
\<close>

theorem stop_only_from_researching:
  "(sub_status r = Researching \<longrightarrow>
      sub_status (SubAgentRunner_stop r) = Failed \<and>
      sub_error (SubAgentRunner_stop r) = Some ''Interrupted'') \<and>
   (sub_status r \<noteq> Researching \<longrightarrow>
      sub_status (SubAgentRunner_stop r) = sub_status r \<and>
      sub_error (SubAgentRunner_stop r) = sub_error r) \<and>
   completedAt (SubAgentRunner_stop r) = completedAt r \<and>
   (heap m i = Some r \<and> sub_status r = Completed \<longrightarrow>
      map_option sub_status (heap (stop_release now m) i) = Some Completed \<and>
      map_option completedAt (heap (stop_release now m) i) = Some (completedAt r) \<and>
      map_option sub_error (heap (stop_release now m) i) = Some (sub_error r))"
proof -
  have "heap m i = Some r \<Longrightarrow> sub_status r = Completed \<Longrightarrow>
      map_option sub_status (heap (stop_release now m) i) = Some Completed \<and>
      map_option completedAt (heap (stop_release now m) i) = Some (completedAt r) \<and>
      map_option sub_error (heap (stop_release now m) i) = Some (sub_error r)"
  proof -
    assume h: "heap m i = Some r" and c: "sub_status r = Completed"
    then have "sub_status r \<noteq> Researching" by simp
    from stop_all_keeps [of "heap m" i r "subAgents (agent m)"] h this c
    show ?thesis by (auto simp: stop_release_def heap_resolve_pause)
  qed
  then show ?thesis by (auto simp: SubAgentRunner_stop_def Let_def)
qed

theorem stop_only_from_researching_witness:
  "sub_status (second_runner\<lparr>sub_status := Researching\<rparr>) = Researching \<and>
   sub_status (SubAgentRunner_stop (second_runner\<lparr>sub_status := Researching\<rparr>)) = Failed \<and>
   sub_error (SubAgentRunner_stop (second_runner\<lparr>sub_status := Researching\<rparr>))
     = Some ''Interrupted'' \<and>
   sub_status demo_runner \<noteq> Researching \<and>
   sub_status (SubAgentRunner_stop demo_runner) = Pending \<and>
   heap demo_machine ''sa1'' = Some (demo_runner\<lparr>sub_status := Completed, completedAt := Some 3000\<rparr>) \<and>
   sub_status (demo_runner\<lparr>sub_status := Completed, completedAt := Some 3000\<rparr>) = Completed \<and>
   map_option sub_status (heap (stop_release 5000 demo_machine) ''sa1'') = Some Completed \<and>
   map_option completedAt (heap (stop_release 5000 demo_machine) ''sa1'') = Some (Some 3000)"
proof -
  have h: "heap demo_machine ''sa1'' =
             Some (demo_runner\<lparr>sub_status := Completed, completedAt := Some 3000\<rparr>)"
    by (simp add: demo_machine_def)
  show ?thesis
    using h
      stop_only_from_researching
        [of "second_runner\<lparr>sub_status := Researching\<rparr>" demo_machine "''zz''" 5000]
      stop_only_from_researching [of demo_runner demo_machine "''zz''" 5000]
      stop_only_from_researching
        [of "demo_runner\<lparr>sub_status := Completed, completedAt := Some 3000\<rparr>" demo_machine
            "''sa1''" 5000]
    by (simp add: demo_runner_def new_SubAgentRunner_def)
qed

subsection \<open>Reading a sub-agent's report\<close>

text \<open>
  C4. \<open>readSubAgentReport(id)\<close> fails with "Sub-agent .. not found" when the id is not
  registered, fails with "Report file not found .." when the sub-agent is known and
  nothing exists at its report path, and returns the contents verbatim when the report
  file is there; in every case the orchestrator, its sub-agents and the file system are
  left as they were.
\<close>

theorem readSubAgentReport_cases:
  "(subAgents_get m subAgentId = None \<longrightarrow>
      readSubAgentReport m subAgentId = (Inl (Sub_agent_not_found subAgentId), m)) \<and>
   (subAgents_get m subAgentId = Some r \<and> \<not> existsSync (agent_disk m) (reportPath r) \<longrightarrow>
      readSubAgentReport m subAgentId =
        (Inl (Report_file_not_found subAgentId (reportPath r)), m)) \<and>
   (subAgents_get m subAgentId = Some r \<and> reportPath r \<noteq> [] \<and>
    nodes (agent_disk m) (reportPath r) = Some (File c) \<longrightarrow>
      readSubAgentReport m subAgentId = (Inr c, m)) \<and>
   snd (readSubAgentReport m subAgentId) = m"
  by (auto simp: readSubAgentReport_def existsSync_def readFile_def
           split: option.splits sum.splits node.splits)

theorem readSubAgentReport_cases_witness:
  "subAgents_get demo_machine ''zz'' = None \<and>
   readSubAgentReport demo_machine ''zz'' = (Inl (Sub_agent_not_found ''zz''), demo_machine) \<and>
   subAgents_get demo_machine ''sa2'' =
     Some (second_runner\<lparr>sub_status := Researching, sub_currentQuery := True\<rparr>) \<and>
   \<not> existsSync (agent_disk demo_machine) [''results'', ''sub-agents'', ''a1'', ''sa2.md''] \<and>
   readSubAgentReport demo_machine ''sa2'' =
     (Inl (Report_file_not_found ''sa2'' [''results'', ''sub-agents'', ''a1'', ''sa2.md'']),
      demo_machine) \<and>
   subAgents_get demo_machine ''sa1'' =
     Some (demo_runner\<lparr>sub_status := Completed, completedAt := Some 3000\<rparr>) \<and>
   nodes (agent_disk demo_machine) [''results'', ''sub-agents'', ''a1'', ''sa1.md'']
     = Some (File ''report body'') \<and>
   readSubAgentReport demo_machine ''sa1'' = (Inr ''report body'', demo_machine)"
proof -
  have g0: "subAgents_get demo_machine ''zz'' = None"
    by (simp add: subAgents_get_def demo_machine_def new_machine_def)
  have g2: "subAgents_get demo_machine ''sa2'' =
              Some (second_runner\<lparr>sub_status := Researching, sub_currentQuery := True\<rparr>)"
    by (simp add: subAgents_get_def demo_machine_def new_machine_def)
  have g1: "subAgents_get demo_machine ''sa1'' =
              Some (demo_runner\<lparr>sub_status := Completed, completedAt := Some 3000\<rparr>)"
    by (simp add: subAgents_get_def demo_machine_def new_machine_def)
  have e2: "\<not> existsSync (agent_disk demo_machine)
                [''results'', ''sub-agents'', ''a1'', ''sa2.md'']"
    by (simp add: existsSync_def demo_machine_def new_machine_def reports_fs_def)
  have n1: "nodes (agent_disk demo_machine) [''results'', ''sub-agents'', ''a1'', ''sa1.md'']
              = Some (File ''report body'')"
    by (simp add: demo_machine_def new_machine_def reports_fs_def)
  show ?thesis
    using g0 g1 g2 e2 n1
      readSubAgentReport_cases [of demo_machine "''zz''"]
      readSubAgentReport_cases
        [of demo_machine "''sa2''"
            "second_runner\<lparr>sub_status := Researching, sub_currentQuery := True\<rparr>"]
      readSubAgentReport_cases
        [of demo_machine "''sa1''"
            "demo_runner\<lparr>sub_status := Completed, completedAt := Some 3000\<rparr>"
            "''report body''"]
    by (simp add: demo_runner_def second_runner_def new_SubAgentRunner_def)
qed

subsection \<open>Failures of the embedding service and of the vector store\<close>

text \<open>
  The claim C5 fails for a search: with a working embedding pipeline and a store whose
  search call fails, \<open>searchLongTermMemory\<close> returns the empty list instead of raising
  (\<open>longTermMemoryDb.search\<close>, database.ts lines 526--529).
\<close>

theorem search_swallows_store_failure:
  "searchLongTermMemory ok_model failing_rpc demo_agent ''query'' (Some 5) = Inr []"
  by (simp add: searchLongTermMemory_def generateEmbedding_def ok_model_def failing_rpc_def
        longTermMemoryDb_search_def)

text \<open>
  C5, amended. \<open>saveLongTermMemory\<close> raises when the embedding service fails and when the
  store rejects the insert; \<open>searchLongTermMemory\<close> raises when the embedding service
  fails; a failure of the store during a search is logged and the call returns the empty
  list.
\<close>

theorem long_term_memory_failures:
  "(isl (generateEmbedding model content) \<longrightarrow>
      isl (saveLongTermMemory model insert_row a title content category)) \<and>
   ((\<forall>row. resp_error (insert_row row) \<noteq> None) \<longrightarrow>
      isl (saveLongTermMemory model insert_row a title content category)) \<and>
   (isl (generateEmbedding model query) \<longrightarrow>
      isl (searchLongTermMemory model rpc a query limit)) \<and>
   (\<not> isl (generateEmbedding model query) \<and> (\<forall>args. resp_error (rpc args) \<noteq> None) \<longrightarrow>
      searchLongTermMemory model rpc a query limit = Inr [])"
  by (auto simp: saveLongTermMemory_def searchLongTermMemory_def longTermMemoryDb_create_def
        longTermMemoryDb_search_def Let_def split: sum.splits option.splits)

theorem long_term_memory_failures_witness:
  "isl (generateEmbedding failing_model ''finding'') \<and>
   isl (saveLongTermMemory failing_model failing_insert demo_agent ''t'' ''finding'' None) \<and>
   (\<forall>row. resp_error (failing_insert row) \<noteq> None) \<and>
   isl (saveLongTermMemory ok_model failing_insert demo_agent ''t'' ''finding'' None) \<and>
   isl (generateEmbedding failing_model ''query'') \<and>
   isl (searchLongTermMemory failing_model failing_rpc demo_agent ''query'' None) \<and>
   \<not> isl (generateEmbedding ok_model ''query'') \<and>
   (\<forall>args. resp_error (failing_rpc args) \<noteq> None) \<and>
   searchLongTermMemory ok_model failing_rpc demo_agent ''query'' None = Inr []"
proof -
  have a: "isl (generateEmbedding failing_model ''finding'')"
          "isl (generateEmbedding failing_model ''query'')"
          "\<not> isl (generateEmbedding ok_model ''query'')"
    by (simp_all add: generateEmbedding_def failing_model_def ok_model_def)
  have b: "\<forall>row. resp_error (failing_insert row) \<noteq> None"
          "\<forall>args. resp_error (failing_rpc args) \<noteq> None"
    by (simp_all add: failing_insert_def failing_rpc_def)
  show ?thesis
    using a b
      long_term_memory_failures
        [of failing_model "''finding''" failing_insert demo_agent "''t''" None "''query''"
            failing_rpc None]
      long_term_memory_failures
        [of ok_model "''finding''" failing_insert demo_agent "''t''" None "''query''"
            failing_rpc None]
    by blast
qed

subsection \<open>Writing and reading the memory file\<close>






subsection \<open>The report file and the completion of a sub-agent\<close>











subsection \<open>The status edges of an agent\<close>



text \<open>
  The write of \<open>sleeping\<close> (line 474) does not look at the status it replaces: it follows
  \<open>paused\<close> when \<open>pause()\<close> came after the result message and before the end of the
  stream, and \<open>stopped\<close> when the last statement of a \<open>stop()\<close> ran after the agent was
  started again.
\<close>

lemma pause_before_sleep_history:
  "map_option history (agent_steps pause_before_sleep (new_machine demo_agent empty_fs)) =
     Some [Stopped, Running, Running, Paused, Sleeping]"
  by (simp add: pause_before_sleep_def new_machine_def demo_agent_def
        new_AgentOrchestrator_def empty_fs_def start_call_def set_status_def
        start_trace_created_def start_launch_def Let_def dirname_def existsSync_def
        mkdir_recursive_def is_file_def writeMemory_def readMemory_def writeFile_def is_dir_def
        loop_top_def on_stream_message_def handleSleep_def leave_stream_def post_stream_def
        pause_call_def)

lemma restart_during_stop_history:
  "map_option history (agent_steps restart_during_stop (new_machine demo_agent empty_fs)) =
     Some [Stopped, Running, Running, Stopped, Running, Running, Stopped, Sleeping]"
  by code_simp
























end
